theory Spec2Isabelle
  imports Complex_Main "HOL-Library.Sublist"
begin

section \<open>Data model of the upload and result client\<close>

text \<open>
  The client is the React component \<^verbatim>\<open>StartupEvaluator\<close>
  (\<^verbatim>\<open>src/frontend/StartupEvaluator.tsx\<close>); a second, older component \<^verbatim>\<open>App\<close>
  (\<^verbatim>\<open>src/unnamed/part_001\<close>) has the same upload flow with its own handlers.

  A JavaScript \<^verbatim>\<open>number\<close> is modelled by its mathematical value. A response body is
  parsed from JSON and the samples are literals, so \<^verbatim>\<open>NaN\<close> does not occur; the only
  falsy number is then \<open>0\<close>. An optional field (\<^verbatim>\<open>undefined\<close> or \<^verbatim>\<open>null\<close>) is
  \<open>None\<close>: every operation the component applies to such a field (\<^verbatim>\<open>!v\<close>, \<^verbatim>\<open>v || d\<close>,
  \<^verbatim>\<open>v?.m()\<close>, rendering as a child) treats the two alike.
  Strings are byte strings; a character outside ASCII is written as its UTF-8 bytes.
\<close>

type_synonym number = real

text \<open>A browser \<^verbatim>\<open>File\<close>: its \<^verbatim>\<open>name\<close>, \<^verbatim>\<open>type\<close> (the MIME type) and \<^verbatim>\<open>size\<close>.\<close>

record File =
  file_name :: string
  file_type :: string
  file_size :: nat

text \<open>A value of \<^verbatim>\<open>key_metrics: Record<string, any>\<close>: the samples hold numbers, the
  contract allows text too.\<close>

datatype metric = MNum number | MStr string

record extracted_data =
  company_name :: "string option"
  sector :: "string option"
  arr_crore :: "number option"
  team_size :: "number option"
  stage :: "string option"
  valuation_pre_money_crore :: "number option"
  revenue_model :: "string option"
  founders :: "string list option"
  key_metrics :: "(string \<times> metric) list option"

record sector_comparison =
  arr_percentile :: "number option"
  performance_tier :: "string option"
  team_efficiency :: "number option"

record risk_assessment =
  overall_risk_score :: "number option"
  risk_level :: "string option"
  red_flags :: "string list option"
  recommendations :: "string list option"

record EvaluationResult =
  startup_id :: string
  timestamp :: string
  extracted :: extracted_data
  comparison :: sector_comparison
  risk :: risk_assessment
  investment_score :: number
  investment_recommendation :: "string option"

text \<open>The seven \<^verbatim>\<open>useState\<close> cells of \<^verbatim>\<open>StartupEvaluator\<close>.\<close>

record state =
  "file" :: "File option"
  evaluation :: "EvaluationResult option"
  loading :: bool
  error :: "string option"
  dragActive :: bool
  processingStep :: nat
  showSampleData :: bool

definition initial :: state where
  "initial = \<lparr>file = None, evaluation = None, loading = False, error = None,
     dragActive = False, processingStep = 0, showSampleData = True\<rparr>"


section \<open>Utility functions\<close>

text \<open>\<^verbatim>\<open>getScoreColor\<close> (lines 271-276): a chain of early returns.\<close>

definition getScoreColor :: "number \<Rightarrow> string" where
  "getScoreColor score =
     (if score \<ge> 80 then ''#34A853''
      else if score \<ge> 60 then ''#FBBC04''
      else if score \<ge> 40 then ''#FF9800''
      else ''#EA4335'')"

text \<open>
  \<^verbatim>\<open>String.prototype.toLowerCase\<close> on the letters that matter here: an ASCII capital
  becomes its small letter and every other byte stays. (No character outside ASCII
  lower-cases to one of the letters of the four labels, so the comparison with the
  ASCII labels below is the one JavaScript makes.)
\<close>

definition lower_char :: "char \<Rightarrow> char" where
  "lower_char c =
     (case map_of (zip ''ABCDEFGHIJKLMNOPQRSTUVWXYZ'' ''abcdefghijklmnopqrstuvwxyz'') c of
        Some l \<Rightarrow> l
      | None \<Rightarrow> c)"

definition toLowerCase :: "string \<Rightarrow> string" where
  "toLowerCase s = map lower_char s"

text \<open>
  \<^verbatim>\<open>getRiskLevelColor\<close> (lines 278-286). The argument is \<^verbatim>\<open>riskLevel?.toLowerCase()\<close>:
  on \<^verbatim>\<open>null\<close> or \<^verbatim>\<open>undefined\<close> the optional chain gives \<^verbatim>\<open>undefined\<close>, which matches
  no \<^verbatim>\<open>case\<close> and falls to \<^verbatim>\<open>default\<close>.
\<close>

definition getRiskLevelColor :: "string option \<Rightarrow> string" where
  "getRiskLevelColor riskLevel =
     (case map_option toLowerCase riskLevel of
        None \<Rightarrow> ''#9AA0A6''
      | Some l \<Rightarrow>
          if l = ''low'' then ''#34A853''
          else if l = ''medium'' then ''#FBBC04''
          else if l = ''medium-high'' then ''#FF9800''
          else if l = ''high'' then ''#EA4335''
          else ''#9AA0A6'')"

text \<open>
  \<^verbatim>\<open>Number.prototype.toFixed\<close> is a built-in of the language, not code of the
  repository: the functions that call it take it as the parameter \<open>toFixed\<close>
  (digits first, then the number).
\<close>

definition rupee :: string where
  "rupee = [CHR 0xE2, CHR 0x82, CHR 0xB9]"

text \<open>\<^verbatim>\<open>formatCurrency\<close> (lines 288-291): \<^verbatim>\<open>!value\<close> holds for an absent value and for
  \<open>0\<close>.\<close>

definition formatCurrency :: "(nat \<Rightarrow> number \<Rightarrow> string) \<Rightarrow> number option \<Rightarrow> string" where
  "formatCurrency toFixed value =
     (case value of
        None \<Rightarrow> ''N/A''
      | Some v \<Rightarrow> if v = 0 then ''N/A'' else rupee @ toFixed 1 v @ ''Cr'')"

section \<open>Requests, failures and effects\<close>

text \<open>The build-time configuration read at line 193.\<close>

record env =
  REACT_APP_MCP_SERVER_URL :: "string option"
  NODE_ENV :: "string option"

text \<open>\<^verbatim>\<open>a || b\<close> on strings: the empty string is falsy.\<close>

definition MCP_SERVER_URL :: "env \<Rightarrow> string" where
  "MCP_SERVER_URL e =
     (case REACT_APP_MCP_SERVER_URL e of
        Some u \<Rightarrow> if u \<noteq> [] then u
                  else if NODE_ENV e = Some ''development'' then ''http://localhost:8080''
                  else ''YOUR_MCP_SERVER_URL''
      | None \<Rightarrow> if NODE_ENV e = Some ''development'' then ''http://localhost:8080''
                else ''YOUR_MCP_SERVER_URL'')"

text \<open>What \<^verbatim>\<open>axios.post(url, formData, config)\<close> is called with: the entries of the
  \<^verbatim>\<open>FormData\<close>, the headers and the timeout in milliseconds.\<close>

record request =
  url :: string
  form_fields :: "(string \<times> File) list"
  headers :: "(string \<times> string) list"
  timeout :: nat

text \<open>The rejection value the \<^verbatim>\<open>catch\<close> block inspects: \<^verbatim>\<open>error.code\<close>,
  \<^verbatim>\<open>error.response\<close> with its \<^verbatim>\<open>status\<close> and \<^verbatim>\<open>data.detail\<close>, and \<^verbatim>\<open>error.message\<close>.\<close>

record response =
  status :: nat
  detail :: "string option"

record axios_error =
  code :: "string option"
  response :: "response option"
  message :: "string option"

text \<open>
  A handler is the sequence of effects it performs, in program order. \<open>Delay ms\<close> is
  \<^verbatim>\<open>await new Promise(resolve => setTimeout(resolve, ms))\<close>; \<open>Post r\<close> is the call of
  \<^verbatim>\<open>axios.post\<close>, and the effects after it are those performed once its promise has
  settled. The type of the stored result is a parameter, since the two components
  declare different result shapes.
\<close>

datatype 'r effect =
    PreventDefault
  | StopPropagation
  | SetFile "File option"
  | SetEvaluation "'r option"
  | SetLoading bool
  | SetError "string option"
  | SetDragActive bool
  | SetProcessingStep nat
  | SetShowSampleData bool
  | Delay nat
  | Post request
  | ConsoleError
  | ClearFileInput

fun apply_effect :: "state \<Rightarrow> EvaluationResult effect \<Rightarrow> state" where
  "apply_effect s (SetFile f) = s\<lparr>file := f\<rparr>"
| "apply_effect s (SetEvaluation r) = s\<lparr>evaluation := r\<rparr>"
| "apply_effect s (SetLoading b) = s\<lparr>loading := b\<rparr>"
| "apply_effect s (SetError m) = s\<lparr>error := m\<rparr>"
| "apply_effect s (SetDragActive b) = s\<lparr>dragActive := b\<rparr>"
| "apply_effect s (SetProcessingStep n) = s\<lparr>processingStep := n\<rparr>"
| "apply_effect s (SetShowSampleData b) = s\<lparr>showSampleData := b\<rparr>"
| "apply_effect s _ = s"

definition run :: "state \<Rightarrow> EvaluationResult effect list \<Rightarrow> state" where
  "run s es = foldl apply_effect s es"

fun is_Post :: "'r effect \<Rightarrow> bool" where
  "is_Post (Post r) = True"
| "is_Post _ = False"

text \<open>The requests a handler issues, in order.\<close>

fun requests :: "'r effect list \<Rightarrow> request list" where
  "requests [] = []"
| "requests (Post r # es) = r # requests es"
| "requests (_ # es) = requests es"


section \<open>The handlers of \<^verbatim>\<open>StartupEvaluator\<close>\<close>

text \<open>Truthiness of an optional string: absent and empty are falsy.\<close>

definition truthy :: "string option \<Rightarrow> bool" where
  "truthy v = (case v of None \<Rightarrow> False | Some t \<Rightarrow> t \<noteq> [])"

text \<open>\<^verbatim>\<open>error.response?.status\<close> and \<^verbatim>\<open>error.response?.data?.detail\<close>.\<close>

definition response_status :: "axios_error \<Rightarrow> nat option" where
  "response_status err = map_option status (response err)"

definition response_detail :: "axios_error \<Rightarrow> string option" where
  "response_detail err = (case response err of None \<Rightarrow> None | Some r \<Rightarrow> detail r)"

text \<open>The message computed by the \<^verbatim>\<open>catch\<close> block (lines 215-227).\<close>

definition errorMessage :: "axios_error \<Rightarrow> string" where
  "errorMessage err =
     (if code err = Some ''ECONNREFUSED''
        then ''Cannot connect to the server. Please check if the backend is running.''
      else if response_status err = Some 401
        then ''Authentication failed. Please check your credentials.''
      else if response_status err = Some 413
        then ''File too large. Please upload a file smaller than 10MB.''
      else if truthy (response_detail err) then the (response_detail err)
      else if truthy (message err) then the (message err)
      else ''Evaluation failed. Please try again.'')"

text \<open>The loop \<^verbatim>\<open>for (let i = 1; i <= 5; i++)\<close> of lines 187-190, from counter \<open>i\<close> on.\<close>

function simulate_steps :: "nat \<Rightarrow> 'r effect list" where
  "simulate_steps i =
     (if i \<le> 5 then SetProcessingStep i # Delay 1000 # simulate_steps (i + 1) else [])"
  by pat_completeness auto
termination
  by (relation "measure (\<lambda>i. 6 - i)") auto

declare simulate_steps.simps [simp del]

definition upload_request :: "env \<Rightarrow> File \<Rightarrow> request" where
  "upload_request e f =
     \<lparr>url = MCP_SERVER_URL e @ ''/evaluate'',
      form_fields = [(''file'', f)],
      headers = [(''Authorization'', ''Bearer demo-token-2025''),
                 (''Content-Type'', ''multipart/form-data'')],
      timeout = 120000\<rparr>"

text \<open>
  \<^verbatim>\<open>handleFileUpload\<close> (lines 172-234), for the \<^verbatim>\<open>file\<close> of its closure and the way
  the promise of \<^verbatim>\<open>axios.post\<close> settles: \<open>Inr data\<close> when it resolves with
  \<^verbatim>\<open>response.data\<close>, \<open>Inl err\<close> when it rejects (a refused connection, an error status,
  the timeout). Nothing else in the \<^verbatim>\<open>try\<close> block throws.
\<close>

definition settled :: "axios_error + EvaluationResult \<Rightarrow> EvaluationResult effect list" where
  "settled outcome =
     (case outcome of
        Inr data \<Rightarrow> [SetEvaluation (Some data), SetShowSampleData False]
      | Inl err \<Rightarrow> [ConsoleError, SetError (Some (errorMessage err))])"

definition handleFileUpload ::
  "env \<Rightarrow> File option \<Rightarrow> axios_error + EvaluationResult \<Rightarrow> EvaluationResult effect list" where
  "handleFileUpload e f outcome =
     (case f of
        None \<Rightarrow> [SetError (Some ''Please select a file to upload'')]
      | Some fl \<Rightarrow>
          [SetLoading True, SetError None, SetProcessingStep 0]
          @ simulate_steps 1
          @ [Post (upload_request e fl)]
          @ settled outcome
          @ [SetLoading False, SetProcessingStep 0])"

text \<open>\<^verbatim>\<open>handleDrag\<close> (lines 237-245), on \<^verbatim>\<open>e.type\<close>.\<close>

definition handleDrag :: "string \<Rightarrow> 'r effect list" where
  "handleDrag ty =
     [PreventDefault, StopPropagation]
     @ (if ty = ''dragenter'' \<or> ty = ''dragover'' then [SetDragActive True]
        else if ty = ''dragleave'' then [SetDragActive False]
        else [])"

text \<open>\<^verbatim>\<open>handleDrop\<close> (lines 247-261), on \<^verbatim>\<open>e.dataTransfer.files\<close>.\<close>

definition handleDrop :: "File list \<Rightarrow> 'r effect list" where
  "handleDrop files =
     [PreventDefault, StopPropagation, SetDragActive False]
     @ (case files of
          [] \<Rightarrow> []
        | droppedFile # _ \<Rightarrow>
            if file_type droppedFile = ''application/pdf''
               \<or> prefix ''image/'' (file_type droppedFile)
            then [SetFile (Some droppedFile), SetError None]
            else [SetError (Some ''Please upload a PDF or image file'')])"

text \<open>\<^verbatim>\<open>handleFileChange\<close> (lines 263-268), on \<^verbatim>\<open>e.target.files\<close> (an absent list
  and an empty one both skip the body).\<close>

definition handleFileChange :: "File list \<Rightarrow> 'r effect list" where
  "handleFileChange files =
     (case files of
        [] \<Rightarrow> []
      | f # _ \<Rightarrow> [SetFile (Some f), SetError None])"

text \<open>\<^verbatim>\<open>viewSampleEvaluation\<close> (lines 293-296).\<close>

definition viewSampleEvaluation :: "'r \<Rightarrow> 'r effect list" where
  "viewSampleEvaluation sampleEvaluation =
     [SetEvaluation (Some sampleEvaluation), SetShowSampleData False]"

text \<open>The \<^verbatim>\<open>onClick\<close> of the button "Back to Upload" (lines 493-497).\<close>

definition back_btn_onClick :: "'r effect list" where
  "back_btn_onClick = [SetEvaluation None, SetShowSampleData True, SetFile None]"

text \<open>A click on the upload button runs \<^verbatim>\<open>handleFileUpload\<close> with the current file.\<close>

definition submit :: "env \<Rightarrow> axios_error + EvaluationResult \<Rightarrow> state \<Rightarrow> state" where
  "submit e outcome s = run s (handleFileUpload e (file s) outcome)"


section \<open>The sample evaluations\<close>

text \<open>The pictographs of the string literals, as their UTF-8 bytes.\<close>

definition clipboard :: string where
  "clipboard = [CHR 0xF0, CHR 0x9F, CHR 0x93, CHR 0x8B]"

definition warning_sign :: string where
  "warning_sign = [CHR 0xE2, CHR 0x9A, CHR 0xA0, CHR 0xEF, CHR 0xB8, CHR 0x8F]"

definition red_circle :: string where
  "red_circle = [CHR 0xF0, CHR 0x9F, CHR 0x94, CHR 0xB4]"

definition yellow_circle :: string where
  "yellow_circle = [CHR 0xF0, CHR 0x9F, CHR 0x9F, CHR 0xA1]"

definition check_mark :: string where
  "check_mark = [CHR 0xE2, CHR 0x9C, CHR 0x85]"

definition outbox_tray :: string where
  "outbox_tray = [CHR 0xF0, CHR 0x9F, CHR 0x93, CHR 0xA4]"

definition eye :: string where
  "eye = [CHR 0xF0, CHR 0x9F, CHR 0x91, CHR 0x81, CHR 0xEF, CHR 0xB8, CHR 0x8F]"

definition robot :: string where
  "robot = [CHR 0xF0, CHR 0x9F, CHR 0xA4, CHR 0x96]"

definition bar_chart :: string where
  "bar_chart = [CHR 0xF0, CHR 0x9F, CHR 0x93, CHR 0x8A]"

definition floppy_disk :: string where
  "floppy_disk = [CHR 0xF0, CHR 0x9F, CHR 0x92, CHR 0xBE]"

text \<open>
  The three entries of \<^verbatim>\<open>sampleEvaluations\<close> (lines 46-161). Their timestamp is
  \<^verbatim>\<open>new Date().toISOString()\<close> at render time, the parameter \<open>now\<close>.
\<close>

definition we360ai :: "string \<Rightarrow> EvaluationResult" where
  "we360ai now =
     \<lparr>startup_id = ''we360ai'',
      timestamp = now,
      extracted =
        \<lparr>company_name = Some ''We360.ai'',
         sector = Some ''SaaS/Productivity'',
         arr_crore = Some (68 / 10),
         team_size = Some 33,
         stage = Some ''Pre-Series A'',
         valuation_pre_money_crore = None,
         revenue_model = Some (''B2B SaaS Subscription''),
         founders = Some [''Founder 1'',
          ''Founder 2''],
         key_metrics = Some [(''paid_users'', MNum 28000),
            (''retention_rate'', MNum 96),
            (''gross_margin'', MNum 90),
            (''growth_rate'', MNum 66)]\<rparr>,
      comparison =
        \<lparr>arr_percentile = Some 85,
         performance_tier = Some ''Top Performer'',
         team_efficiency = Some (206 / 1000)\<rparr>,
      risk =
        \<lparr>overall_risk_score = Some 25,
         risk_level = Some ''Low'',
         red_flags = Some [],
         recommendations = Some [clipboard @ '' Continue international expansion strategy'',
          clipboard @ '' Maintain high retention rates above 95%'',
          clipboard @ '' Scale enterprise segment offerings'']\<rparr>,
      investment_score = 88,
      investment_recommendation = Some (check_mark @ '' **STRONG RECOMMEND** - Excellent SaaS metrics with 96% retention, 6.8Cr ARR, and profitable growth trajectory.'')\<rparr>"

definition drdoodley :: "string \<Rightarrow> EvaluationResult" where
  "drdoodley now =
     \<lparr>startup_id = ''drdoodley'',
      timestamp = now,
      extracted =
        \<lparr>company_name = Some ''Dr. Doodley'',
         sector = Some ''HealthTech/Pet Care'',
         arr_crore = None,
         team_size = Some 40,
         stage = Some ''Seed'',
         valuation_pre_money_crore = None,
         revenue_model = Some (''Home visits, Hospital care, Diagnostics''),
         founders = Some [''Founder A'',
          ''Founder B''],
         key_metrics = Some [(''revenue_6m'', MNum (165 / 100)),
            (''pets_treated'', MNum 2050),
            (''hospitals'', MNum 2),
            (''doctors'', MNum 12)]\<rparr>,
      comparison =
        \<lparr>arr_percentile = Some 45,
         performance_tier = Some ''Average'',
         team_efficiency = None\<rparr>,
      risk =
        \<lparr>overall_risk_score = Some 45,
         risk_level = Some ''Medium'',
         red_flags = Some [warning_sign @ '' Capital intensive hospital model'',
          warning_sign @ '' Limited scalability of home visits''],
         recommendations = Some [clipboard @ '' Validate unit economics per hospital'',
          clipboard @ '' Optimize home visit efficiency'']\<rparr>,
      investment_score = 58,
      investment_recommendation = Some (yellow_circle @ '' **CONDITIONAL RECOMMEND** - Innovative pet healthcare model with good early traction, but scalability validation needed.'')\<rparr>"

definition cashvisory :: "string \<Rightarrow> EvaluationResult" where
  "cashvisory now =
     \<lparr>startup_id = ''cashvisory'',
      timestamp = now,
      extracted =
        \<lparr>company_name = Some ''Cashvisory'',
         sector = Some ''FinTech'',
         arr_crore = Some 0,
         team_size = Some 5,
         stage = Some ''Pre-Seed'',
         valuation_pre_money_crore = Some 8,
         revenue_model = Some (''Advisory subscription, Insurance distribution''),
         founders = Some [''Founder X'',
          ''Founder Y''],
         key_metrics = Some [(''users_acquired'', MNum 13000),
            (''total_aum'', MNum (128 / 10)),
            (''ltv'', MNum 13000),
            (''cac'', MNum 1000)]\<rparr>,
      comparison =
        \<lparr>arr_percentile = Some 25,
         performance_tier = Some ''Early Stage'',
         team_efficiency = Some 0\<rparr>,
      risk =
        \<lparr>overall_risk_score = Some 65,
         risk_level = Some ''Medium-High'',
         red_flags = Some [red_circle @ '' No current ARR despite 13K users'',
          red_circle @ '' Pre-revenue stage with high valuation''],
         recommendations = Some [clipboard @ '' Focus on user monetization strategy'',
          clipboard @ '' Validate revenue model with paying customers'']\<rparr>,
      investment_score = 42,
      investment_recommendation = Some (yellow_circle @ '' **PROCEED WITH CAUTION** - Early stage fintech with strong user base but no revenue. Requires clear monetization plan.'')\<rparr>"

definition sampleEvaluations :: "string \<Rightarrow> EvaluationResult list" where
  "sampleEvaluations now = [we360ai now, drdoodley now, cashvisory now]"

text \<open>The five entries of \<^verbatim>\<open>processingSteps\<close> (lines 163-169): step, title, icon.\<close>

definition processingSteps :: "(nat \<times> string \<times> string) list" where
  "processingSteps =
     [(1, ''Uploading to Cloud Storage'', outbox_tray),
      (2, ''Extracting text with Cloud Vision'', eye),
      (3, ''Processing with Gemini AI'', robot),
      (4, ''Calculating investment score'', bar_chart),
      (5, ''Storing in BigQuery'', floppy_disk)]"

section \<open>What is rendered\<close>

text \<open>
  The value of a JSX child \<^verbatim>\<open>{expr}\<close>: React shows a string and a number as text and
  shows nothing for \<^verbatim>\<open>undefined\<close>, \<^verbatim>\<open>null\<close> and booleans.
\<close>

datatype child = Str string | Num number | Nothing

definition opt_num :: "number option \<Rightarrow> child" where
  "opt_num v = (case v of None \<Rightarrow> Nothing | Some n \<Rightarrow> Num n)"

definition opt_str :: "string option \<Rightarrow> child" where
  "opt_str v = (case v of None \<Rightarrow> Nothing | Some t \<Rightarrow> Str t)"

text \<open>The guards of the conditional sections (lines 401, 407, 427, 447, 484).\<close>

definition upload_btn_disabled :: "state \<Rightarrow> bool" where
  "upload_btn_disabled s = (file s = None \<or> loading s)"

definition processing_steps_shown :: "state \<Rightarrow> bool" where
  "processing_steps_shown s = loading s"

definition error_section_shown :: "state \<Rightarrow> bool" where
  "error_section_shown s = truthy (error s)"

definition sample_section_shown :: "state \<Rightarrow> bool" where
  "sample_section_shown s = (showSampleData s \<and> evaluation s = None)"

definition results_section_shown :: "state \<Rightarrow> bool" where
  "results_section_shown s = (evaluation s \<noteq> None)"

text \<open>The score circle (lines 513-519): its background colour and its children.\<close>

definition score_circle :: "EvaluationResult \<Rightarrow> string \<times> child list" where
  "score_circle ev =
     (getScoreColor (investment_score ev), [Num (investment_score ev), Str ''/100''])"

text \<open>The metric cards (lines 525-570). \<^verbatim>\<open>v || 'N/A'\<close> takes the placeholder for an
  absent and for a falsy \<open>v\<close>; \<^verbatim>\<open>v?.toFixed(d)\<close> is \<^verbatim>\<open>undefined\<close> for an absent \<open>v\<close>.\<close>

definition performance_value :: "EvaluationResult \<Rightarrow> child list" where
  "performance_value ev =
     [case arr_percentile (comparison ev) of
        None \<Rightarrow> Str ''N/A''
      | Some v \<Rightarrow> if v = 0 then Str ''N/A'' else Num v,
      Str ''%'']"

definition risk_badge :: "EvaluationResult \<Rightarrow> string \<times> child list" where
  "risk_badge ev =
     (getRiskLevelColor
        (Some (case risk_level (risk ev) of None \<Rightarrow> [] | Some l \<Rightarrow> l)),
      [opt_str (risk_level (risk ev))])"

definition risk_subtitle :: "(nat \<Rightarrow> number \<Rightarrow> string) \<Rightarrow> EvaluationResult \<Rightarrow> child list" where
  "risk_subtitle toFixed ev =
     [Str ''Score: '', opt_str (map_option (toFixed 1) (overall_risk_score (risk ev)))]"

definition revenue_value :: "(nat \<Rightarrow> number \<Rightarrow> string) \<Rightarrow> EvaluationResult \<Rightarrow> child list" where
  "revenue_value toFixed ev = [Str (formatCurrency toFixed (arr_crore (extracted ev)))]"

definition revenue_subtitle :: "EvaluationResult \<Rightarrow> child list" where
  "revenue_subtitle ev =
     [Str ''Team: '', opt_num (team_size (extracted ev)), Str '' members'']"

definition efficiency_value :: "(nat \<Rightarrow> number \<Rightarrow> string) \<Rightarrow> EvaluationResult \<Rightarrow> child list" where
  "efficiency_value toFixed ev =
     [if truthy (map_option (toFixed 2) (team_efficiency (comparison ev)))
      then Str (toFixed 2 (the (team_efficiency (comparison ev))))
      else Str ''N/A'']"

text \<open>The detail line of a sample card (lines 471-475).\<close>

definition sample_details :: "(nat \<Rightarrow> number \<Rightarrow> string) \<Rightarrow> EvaluationResult \<Rightarrow> child list" where
  "sample_details toFixed sample =
     [Str ''ARR: '', Str (formatCurrency toFixed (arr_crore (extracted sample))),
      Str ''Team: '', opt_num (team_size (extracted sample)),
      Str ''Stage: '', opt_str (stage (extracted sample))]"


section \<open>The component \<^verbatim>\<open>App\<close>\<close>

text \<open>
  The five \<^verbatim>\<open>useState\<close> cells of \<^verbatim>\<open>App\<close> (\<^verbatim>\<open>src/unnamed/part_001\<close>, lines 40-44).
  The fields carry the prefix \<open>app_\<close> since the unprefixed names are those of
  \<^verbatim>\<open>StartupEvaluator\<close>. Its result shape plays no part below and is the parameter \<open>'r\<close>.
\<close>

record 'r app_state =
  app_file :: "File option"
  app_evaluation :: "'r option"
  app_loading :: bool
  app_error :: "string option"
  app_dragActive :: bool

fun app_apply_effect :: "'r app_state \<Rightarrow> 'r effect \<Rightarrow> 'r app_state" where
  "app_apply_effect s (SetFile f) = s\<lparr>app_file := f\<rparr>"
| "app_apply_effect s (SetEvaluation r) = s\<lparr>app_evaluation := r\<rparr>"
| "app_apply_effect s (SetLoading b) = s\<lparr>app_loading := b\<rparr>"
| "app_apply_effect s (SetError m) = s\<lparr>app_error := m\<rparr>"
| "app_apply_effect s (SetDragActive b) = s\<lparr>app_dragActive := b\<rparr>"
| "app_apply_effect s _ = s"

definition app_run :: "'r app_state \<Rightarrow> 'r effect list \<Rightarrow> 'r app_state" where
  "app_run s es = foldl app_apply_effect s es"

definition BACKEND_URL :: string where
  "BACKEND_URL = ''https://startup-evaluator-backend-166437193095.asia-south1.run.app''"

text \<open>\<^verbatim>\<open>handleDrop\<close> of \<^verbatim>\<open>App\<close> (lines 59-73).\<close>

definition app_handleDrop :: "File list \<Rightarrow> 'r effect list" where
  "app_handleDrop files =
     [PreventDefault, StopPropagation, SetDragActive False]
     @ (case files of
          [] \<Rightarrow> []
        | droppedFile # _ \<Rightarrow>
            if file_type droppedFile = ''application/pdf''
            then [SetFile (Some droppedFile), SetError None]
            else [SetError (Some ''Please upload a PDF file only.'')])"

text \<open>\<^verbatim>\<open>handleFileSelect\<close> (lines 75-85).\<close>

definition handleFileSelect :: "File list \<Rightarrow> 'r effect list" where
  "handleFileSelect files =
     (case files of
        [] \<Rightarrow> []
      | selectedFile # _ \<Rightarrow>
          if file_type selectedFile = ''application/pdf''
          then [SetFile (Some selectedFile), SetError None]
          else [SetError (Some ''Please upload a PDF file only.'')])"

text \<open>\<^verbatim>\<open>handleUpload\<close> (lines 87-114); the \<^verbatim>\<open>catch\<close> block shows
  \<^verbatim>\<open>err.response?.data?.detail || 'Failed to process PDF. Please try again.'\<close>.\<close>

definition app_upload_request :: "File \<Rightarrow> request" where
  "app_upload_request f =
     \<lparr>url = BACKEND_URL @ ''/evaluate-startup'',
      form_fields = [(''file'', f)],
      headers = [(''Content-Type'', ''multipart/form-data'')],
      timeout = 120000\<rparr>"

definition handleUpload :: "File option \<Rightarrow> axios_error + 'r \<Rightarrow> 'r effect list" where
  "handleUpload f outcome =
     (case f of
        None \<Rightarrow> [SetError (Some ''Please select a PDF file to upload.'')]
      | Some fl \<Rightarrow>
          [SetLoading True, SetError None, Post (app_upload_request fl)]
          @ (case outcome of
               Inr data \<Rightarrow> [SetEvaluation (Some data)]
             | Inl err \<Rightarrow>
                 [ConsoleError,
                  SetError (Some (if truthy (response_detail err) then the (response_detail err)
                                  else ''Failed to process PDF. Please try again.''))])
          @ [SetLoading False])"

text \<open>\<^verbatim>\<open>resetUpload\<close> (lines 116-123); \<open>ClearFileInput\<close> is the assignment of the empty
  string to the value of the file input, made when the input is mounted.\<close>

definition resetUpload :: "'r effect list" where
  "resetUpload = [SetFile None, SetEvaluation None, SetError None, ClearFileInput]"


text \<open>The upload button of \<^verbatim>\<open>App\<close> (line 194), and a click on it: \<^verbatim>\<open>handleUpload\<close> with the
  current file.\<close>

definition app_upload_btn_disabled :: "'r app_state \<Rightarrow> bool" where
  "app_upload_btn_disabled s = (app_file s = None \<or> app_loading s)"

definition app_submit :: "axios_error + 'r \<Rightarrow> 'r app_state \<Rightarrow> 'r app_state" where
  "app_submit outcome s = app_run s (handleUpload (app_file s) outcome)"

section \<open>Observing a sequence of effects\<close>

text \<open>The effects up to and including the first request, and those after it: the
  request is outstanding between the two.\<close>

fun until_request :: "'r effect list \<Rightarrow> 'r effect list" where
  "until_request [] = []"
| "until_request (x # xs) = (if is_Post x then [x] else x # until_request xs)"

fun after_request :: "'r effect list \<Rightarrow> 'r effect list" where
  "after_request [] = []"
| "after_request (x # xs) = (if is_Post x then xs else after_request xs)"

text \<open>The values given to \<^verbatim>\<open>setProcessingStep\<close>, and the timer delays, in order.\<close>

fun steps_shown :: "'r effect list \<Rightarrow> nat list" where
  "steps_shown [] = []"
| "steps_shown (SetProcessingStep n # es) = n # steps_shown es"
| "steps_shown (_ # es) = steps_shown es"

fun delays :: "'r effect list \<Rightarrow> nat list" where
  "delays [] = []"
| "delays (Delay ms # es) = ms # delays es"
| "delays (_ # es) = delays es"

section \<open>Example inputs\<close>

definition deck_pdf :: File where
  "deck_pdf = \<lparr>file_name = ''deck.pdf'', file_type = ''application/pdf'', file_size = 1048576\<rparr>"

definition notes_txt :: File where
  "notes_txt = \<lparr>file_name = ''notes.txt'', file_type = ''text/plain'', file_size = 12\<rparr>"

definition dev_env :: env where
  "dev_env = \<lparr>REACT_APP_MCP_SERVER_URL = None, NODE_ENV = Some ''development''\<rparr>"

text \<open>Rejections as axios reports them: a refused connection, a 401 answer of the
  server with a \<^verbatim>\<open>detail\<close>, an elapsed timeout.\<close>

definition refused :: axios_error where
  "refused = \<lparr>code = Some ''ECONNREFUSED'', response = None,
     message = Some ''connect ECONNREFUSED 127.0.0.1:8080''\<rparr>"

definition unauthorized :: axios_error where
  "unauthorized = \<lparr>code = Some ''ERR_BAD_REQUEST'',
     response = Some \<lparr>status = 401, detail = Some ''Invalid token''\<rparr>,
     message = Some ''Request failed with status code 401''\<rparr>"

definition timed_out :: axios_error where
  "timed_out = \<lparr>code = Some ''ECONNABORTED'', response = None,
     message = Some ''timeout of 120000ms exceeded''\<rparr>"

text \<open>The state once \<^verbatim>\<open>deck.pdf\<close> has been picked and its evaluation has arrived.\<close>

definition result_displayed :: state where
  "result_displayed =
     submit dev_env (Inr (we360ai [])) (run initial (handleFileChange [deck_pdf]))"



text \<open>\<^verbatim>\<open>App\<close> with \<^verbatim>\<open>deck.pdf\<close> selected.\<close>

definition app_deck_selected :: "unit app_state" where
  "app_deck_selected =
     \<lparr>app_file = Some deck_pdf, app_evaluation = None, app_loading = False,
      app_error = None, app_dragActive = False\<rparr>"

text \<open>A response like the sample Dr. Doodley in which every optional number of the
  metric cards is absent.\<close>

definition no_numbers :: EvaluationResult where
  "no_numbers =
     (drdoodley [])
       \<lparr>extracted := (extracted (drdoodley []))\<lparr>arr_crore := None, team_size := None\<rparr>,
        comparison := (comparison (drdoodley []))\<lparr>arr_percentile := None, team_efficiency := None\<rparr>,
        risk := (risk (drdoodley []))\<lparr>overall_risk_score := None\<rparr>\<rparr>"

section \<open>Auxiliary facts\<close>

text \<open>The loop of the five stages unrolled, and the state a submission ends in.\<close>

lemma simulate_steps_1:
  "simulate_steps 1 =
     [SetProcessingStep 1, Delay 1000, SetProcessingStep 2, Delay 1000,
      SetProcessingStep 3, Delay 1000, SetProcessingStep 4, Delay 1000,
      SetProcessingStep 5, Delay 1000]"
  by (simp add: simulate_steps.simps)

lemma simulate_steps_Suc_0:
  "simulate_steps (Suc 0) =
     [SetProcessingStep 1, Delay 1000, SetProcessingStep 2, Delay 1000,
      SetProcessingStep 3, Delay 1000, SetProcessingStep 4, Delay 1000,
      SetProcessingStep 5, Delay 1000]"
  using simulate_steps_1 by simp

lemma errorMessage_nonempty: "errorMessage err \<noteq> []"
  by (auto simp: errorMessage_def truthy_def split: option.splits)

lemma run_success:
  "run s (handleFileUpload e (Some f) (Inr ev)) =
     s\<lparr>loading := False, error := None, processingStep := 0,
       evaluation := Some ev, showSampleData := False\<rparr>"
  by (simp add: run_def handleFileUpload_def settled_def simulate_steps_Suc_0)

lemma run_failure:
  "run s (handleFileUpload e (Some f) (Inl err)) =
     s\<lparr>loading := False, error := Some (errorMessage err), processingStep := 0\<rparr>"
  by (simp add: run_def handleFileUpload_def settled_def simulate_steps_Suc_0)

lemma run_no_file:
  "run s (handleFileUpload e None outcome) = s\<lparr>error := Some ''Please select a file to upload''\<rparr>"
  by (simp add: run_def handleFileUpload_def)

lemma result_displayed_eq:
  "result_displayed =
     \<lparr>file = Some deck_pdf, evaluation = Some (we360ai []), loading = False, error = None,
      dragActive = False, processingStep = 0, showSampleData = False\<rparr>"
proof -
  have "run initial (handleFileChange [deck_pdf]) = initial\<lparr>file := Some deck_pdf, error := None\<rparr>"
    by (simp add: run_def handleFileChange_def)
  then show ?thesis
    by (simp add: result_displayed_def submit_def run_success initial_def)
qed

lemma steps_shown_settled: "steps_shown (settled outcome) = []"
  by (cases outcome) (simp_all add: settled_def)

lemma delays_settled: "delays (settled outcome) = []"
  by (cases outcome) (simp_all add: settled_def)

lemma until_request_upload:
  "until_request (handleFileUpload e (Some f) outcome) =
     [SetLoading True, SetError None, SetProcessingStep 0,
      SetProcessingStep 1, Delay 1000, SetProcessingStep 2, Delay 1000,
      SetProcessingStep 3, Delay 1000, SetProcessingStep 4, Delay 1000,
      SetProcessingStep 5, Delay 1000, Post (upload_request e f)]"
  by (simp add: handleFileUpload_def simulate_steps_Suc_0)

lemma after_request_upload:
  "after_request (handleFileUpload e (Some f) outcome) =
     settled outcome @ [SetLoading False, SetProcessingStep 0]"
  by (simp add: handleFileUpload_def simulate_steps_Suc_0)

lemma steps_shown_append: "steps_shown (xs @ ys) = steps_shown xs @ steps_shown ys"
  by (induction xs rule: steps_shown.induct) simp_all

lemma delays_append: "delays (xs @ ys) = delays xs @ delays ys"
  by (induction xs rule: delays.induct) simp_all

lemma requests_append: "requests (xs @ ys) = requests xs @ requests ys"
  by (induction xs rule: requests.induct) simp_all

lemma requests_settled: "requests (settled outcome) = []"
  by (cases outcome) (simp_all add: settled_def)

lemma requests_upload:
  "requests (handleFileUpload e (Some f) outcome) = [upload_request e f]"
  by (simp add: handleFileUpload_def simulate_steps_Suc_0 requests_append requests_settled)

lemma requests_handleUpload:
  "requests (handleUpload (Some f) outcome) = [app_upload_request f]"
  by (cases outcome) (simp_all add: handleUpload_def)

lemma app_run_failure:
  "app_run s (handleUpload (Some f) (Inl err)) =
     s\<lparr>app_loading := False,
       app_error := Some (if truthy (response_detail err) then the (response_detail err)
                          else ''Failed to process PDF. Please try again.'')\<rparr>"
  by (simp add: app_run_def handleUpload_def)

lemma app_run_success:
  "app_run s (handleUpload (Some f) (Inr data)) =
     s\<lparr>app_loading := False, app_error := None, app_evaluation := Some data\<rparr>"
  by (simp add: app_run_def handleUpload_def)

lemma response_detail_timed_out: "response_detail timed_out = None"
  by (simp add: response_detail_def timed_out_def)

lemma errorMessage_timed_out: "errorMessage timed_out = ''timeout of 120000ms exceeded''"
  by (simp add: errorMessage_def timed_out_def response_status_def response_detail_def truthy_def)

text \<open>The metric values that have a fallback: an absent \<^verbatim>\<open>arr_crore\<close>, \<^verbatim>\<open>arr_percentile\<close> or
  \<^verbatim>\<open>team_efficiency\<close> is rendered as \<^verbatim>\<open>N/A\<close>, for every evaluation.\<close>

lemma metrics_with_fallback:
  "arr_crore (extracted ev) = None \<Longrightarrow> revenue_value toFixed ev = [Str ''N/A'']"
  "arr_percentile (comparison ev) = None \<Longrightarrow> performance_value ev = [Str ''N/A'', Str ''%'']"
  "team_efficiency (comparison ev) = None \<Longrightarrow> efficiency_value toFixed ev = [Str ''N/A'']"
  by (simp_all add: revenue_value_def formatCurrency_def performance_value_def
      efficiency_value_def truthy_def)

text \<open>Selections that are refused: a dropped file of another type in
  \<^verbatim>\<open>StartupEvaluator\<close>, and a file that is not a PDF on both paths of \<^verbatim>\<open>App\<close>. Only
  the error (and the drag flag) changes and no request is issued.\<close>

lemma handleDrop_rejects_other_types:
  assumes "file_type f \<noteq> ''application/pdf''" and "\<not> prefix ''image/'' (file_type f)"
  shows "run s (handleDrop (f # fs)) =
           s\<lparr>dragActive := False, error := Some ''Please upload a PDF or image file''\<rparr>"
    and "requests (handleDrop (f # fs) :: EvaluationResult effect list) = []"
  using assms by (simp_all add: run_def handleDrop_def)

lemma app_selection_rejects_non_pdf:
  assumes "file_type f \<noteq> ''application/pdf''"
  shows "app_run s (app_handleDrop (f # fs)) =
           s\<lparr>app_dragActive := False, app_error := Some ''Please upload a PDF file only.''\<rparr>"
    and "app_run s (handleFileSelect (f # fs)) =
           s\<lparr>app_error := Some ''Please upload a PDF file only.''\<rparr>"
    and "requests (app_handleDrop (f # fs) :: 'r effect list) = []"
    and "requests (handleFileSelect (f # fs) :: 'r effect list) = []"
  using assms by (simp_all add: app_run_def app_handleDrop_def handleFileSelect_def)

text \<open>The button "Back to Upload" and \<^verbatim>\<open>resetUpload\<close> of \<^verbatim>\<open>App\<close>.\<close>

lemma back_btn_onClick_state:
  "run s back_btn_onClick = s\<lparr>evaluation := None, showSampleData := True, file := None\<rparr>"
  by (simp add: run_def back_btn_onClick_def)

lemma resetUpload_clears_all:
  "app_file (app_run s resetUpload) = None
   \<and> app_evaluation (app_run s resetUpload) = None
   \<and> app_error (app_run s resetUpload) = None"
  by (simp add: app_run_def resetUpload_def)

section \<open>Selecting a file\<close>

text \<open>
  C1. A selected file whose MIME type is neither \<^verbatim>\<open>application/pdf\<close> nor an image type
  is to be rejected with an error, not stored, and no request issued. The drop handler
  checks the type (\<open>handleDrop_rejects_other_types\<close>), and so do both handlers of
  \<^verbatim>\<open>App\<close>; \<^verbatim>\<open>handleFileChange\<close>, the file-picker path of \<^verbatim>\<open>StartupEvaluator\<close>, does
  not look at the type. Picking \<^verbatim>\<open>notes.txt\<close> of type \<^verbatim>\<open>text/plain\<close> from the initial state
  stores it with no error, enables the upload button, and the next submit posts it.
\<close>

theorem handleFileChange_stores_text_file:
  "file_type notes_txt \<noteq> ''application/pdf''
   \<and> \<not> prefix ''image/'' (file_type notes_txt)
   \<and> run initial (handleFileChange [notes_txt]) = initial\<lparr>file := Some notes_txt\<rparr>
   \<and> \<not> error_section_shown (run initial (handleFileChange [notes_txt]))
   \<and> \<not> upload_btn_disabled (run initial (handleFileChange [notes_txt]))
   \<and> requests (handleFileUpload dev_env (file (run initial (handleFileChange [notes_txt]))) (Inl refused))
       = [upload_request dev_env notes_txt]"
proof -
  have picked: "run initial (handleFileChange [notes_txt]) = initial\<lparr>file := Some notes_txt\<rparr>"
    by (simp add: run_def handleFileChange_def initial_def)
  show ?thesis
    unfolding picked
    by (simp add: notes_txt_def initial_def error_section_shown_def truthy_def
        upload_btn_disabled_def requests_upload)
qed

section \<open>The progress stages and the request\<close>

text \<open>
  C2, as stated, at the submission of \<^verbatim>\<open>deck.pdf\<close>: the stages 1 to 5 and all five
  delays of one second come before the request is issued; once it is outstanding no stage
  is shown any more and no timer runs, the only later update being the reset to 0.
\<close>

theorem stages_while_outstanding_counterexample:
  "steps_shown (until_request (handleFileUpload dev_env (Some deck_pdf) (Inr (we360ai []))))
     = [0, 1, 2, 3, 4, 5]
   \<and> delays (until_request (handleFileUpload dev_env (Some deck_pdf) (Inr (we360ai []))))
     = [1000, 1000, 1000, 1000, 1000]
   \<and> steps_shown (after_request (handleFileUpload dev_env (Some deck_pdf) (Inr (we360ai []))))
     = [0]
   \<and> delays (after_request (handleFileUpload dev_env (Some deck_pdf) (Inr (we360ai []))))
     = []"
  by (simp add: until_request_upload after_request_upload settled_def)

text \<open>
  C2, amended: for every submitted file and every way the request settles, the handler
  first steps through the five stages of \<^verbatim>\<open>processingSteps\<close> in order, one second
  each, and only then issues the request; while the request is outstanding the
  component is loading with the indicator at stage 5, and after it has settled the
  indicator is reset to 0. The stage timer and the request run one after the other.
\<close>

theorem stages_precede_request:
  "until_request (handleFileUpload e (Some f) outcome) =
     [SetLoading True, SetError None, SetProcessingStep 0,
      SetProcessingStep 1, Delay 1000, SetProcessingStep 2, Delay 1000,
      SetProcessingStep 3, Delay 1000, SetProcessingStep 4, Delay 1000,
      SetProcessingStep 5, Delay 1000, Post (upload_request e f)]
   \<and> tl (steps_shown (until_request (handleFileUpload e (Some f) outcome)))
       = map fst processingSteps
   \<and> loading (run s (until_request (handleFileUpload e (Some f) outcome)))
   \<and> processingStep (run s (until_request (handleFileUpload e (Some f) outcome))) = 5
   \<and> steps_shown (after_request (handleFileUpload e (Some f) outcome)) = [0]
   \<and> delays (after_request (handleFileUpload e (Some f) outcome)) = []"
  by (simp add: until_request_upload after_request_upload steps_shown_append delays_append
      steps_shown_settled delays_settled processingSteps_def run_def)

theorem stages_precede_request_witness:
  "processingStep (run initial (until_request (handleFileUpload dev_env (Some deck_pdf) (Inl timed_out)))) = 5
   \<and> steps_shown (after_request (handleFileUpload dev_env (Some deck_pdf) (Inl timed_out))) = [0]"
  using stages_precede_request [of dev_env deck_pdf "Inl timed_out" initial] by blast

section \<open>The score circle\<close>

text \<open>
  C3, as stated: a response with \<^verbatim>\<open>investment_score\<close> 150 is rendered as 150, outside
  \<open>[0,100]\<close>, and the scores 50 and 30, both below 60, get different colours.
\<close>

theorem score_circle_counterexample:
  "snd (score_circle ((we360ai [])\<lparr>investment_score := 150\<rparr>)) = [Num 150, Str ''/100'']
   \<and> \<not> (150 \<le> (100::number))
   \<and> (50::number) < 60 \<and> (30::number) < 60
   \<and> fst (score_circle ((we360ai [])\<lparr>investment_score := 50\<rparr>))
       \<noteq> fst (score_circle ((we360ai [])\<lparr>investment_score := 30\<rparr>))"
  by (simp add: score_circle_def getScoreColor_def)

text \<open>
  C3, amended: for every successful response the stored evaluation is the response body
  and the results are shown; the score circle renders \<^verbatim>\<open>investment_score\<close> as received,
  without clamping, and its colour is exactly one of four bands: at least 80, 60 up to
  80, 40 up to 60, below 40.
\<close>

theorem score_circle_four_bands:
  "evaluation (run s (handleFileUpload e (Some f) (Inr ev))) = Some ev
   \<and> results_section_shown (run s (handleFileUpload e (Some f) (Inr ev)))
   \<and> snd (score_circle ev) = [Num (investment_score ev), Str ''/100'']
   \<and> (80 \<le> investment_score ev \<longrightarrow> fst (score_circle ev) = ''#34A853'')
   \<and> (60 \<le> investment_score ev \<and> investment_score ev < 80
        \<longrightarrow> fst (score_circle ev) = ''#FBBC04'')
   \<and> (40 \<le> investment_score ev \<and> investment_score ev < 60
        \<longrightarrow> fst (score_circle ev) = ''#FF9800'')
   \<and> (investment_score ev < 40 \<longrightarrow> fst (score_circle ev) = ''#EA4335'')"
  by (simp add: run_success results_section_shown_def score_circle_def getScoreColor_def)

theorem score_circle_four_bands_witness:
  "fst (score_circle (we360ai [])) = ''#34A853''
   \<and> fst (score_circle ((we360ai [])\<lparr>investment_score := 65\<rparr>)) = ''#FBBC04''
   \<and> fst (score_circle (drdoodley [])) = ''#FF9800''
   \<and> fst (score_circle ((cashvisory [])\<lparr>investment_score := 30\<rparr>)) = ''#EA4335''
   \<and> snd (score_circle (cashvisory [])) = [Num 42, Str ''/100'']"
  using score_circle_four_bands [of initial dev_env deck_pdf "we360ai []"]
    score_circle_four_bands [of initial dev_env deck_pdf "(we360ai [])\<lparr>investment_score := 65\<rparr>"]
    score_circle_four_bands [of initial dev_env deck_pdf "drdoodley []"]
    score_circle_four_bands [of initial dev_env deck_pdf "(cashvisory [])\<lparr>investment_score := 30\<rparr>"]
    score_circle_four_bands [of initial dev_env deck_pdf "cashvisory []"]
  by (simp add: we360ai_def drdoodley_def cashvisory_def)

section \<open>Reset\<close>

text \<open>
  C4. A reset after a result is displayed is to clear the file, the evaluation and the
  error. \<^verbatim>\<open>resetUpload\<close> of \<^verbatim>\<open>App\<close> clears all three (\<open>resetUpload_clears_all\<close>); the
  button "Back to Upload" of \<^verbatim>\<open>StartupEvaluator\<close> never calls \<^verbatim>\<open>setError\<close>. With the
  result of \<^verbatim>\<open>deck.pdf\<close> displayed, a second submit that is refused leaves the result shown
  beside the error; the button then clears file and evaluation and the error is still
  shown in the selection view.
\<close>

theorem back_btn_keeps_error:
  "results_section_shown (submit dev_env (Inl refused) result_displayed)
   \<and> file (run (submit dev_env (Inl refused) result_displayed) back_btn_onClick) = None
   \<and> evaluation (run (submit dev_env (Inl refused) result_displayed) back_btn_onClick) = None
   \<and> sample_section_shown (run (submit dev_env (Inl refused) result_displayed) back_btn_onClick)
   \<and> error (run (submit dev_env (Inl refused) result_displayed) back_btn_onClick)
       = Some ''Cannot connect to the server. Please check if the backend is running.''
   \<and> error_section_shown (run (submit dev_env (Inl refused) result_displayed) back_btn_onClick)"
  by (simp add: result_displayed_eq submit_def run_failure back_btn_onClick_state
      results_section_shown_def sample_section_shown_def error_section_shown_def truthy_def
      errorMessage_def refused_def)

section \<open>The risk badge\<close>

text \<open>
  C5. \<^verbatim>\<open>getRiskLevelColor\<close> is a total function of any string: a string that equals
  one of the labels Low, Medium, Medium-High and High up to the case of its letters has
  the fixed colour of that label, every other string (and an absent value) has the
  neutral colour \<^verbatim>\<open>#9AA0A6\<close>, and the result is always one of the five colours. The only
  step that could throw, the method call on an absent value, is guarded by \<^verbatim>\<open>?.\<close>.
\<close>

theorem getRiskLevelColor_total:
  "(toLowerCase l = toLowerCase ''Low'' \<longrightarrow> getRiskLevelColor (Some l) = ''#34A853'')
   \<and> (toLowerCase l = toLowerCase ''Medium'' \<longrightarrow> getRiskLevelColor (Some l) = ''#FBBC04'')
   \<and> (toLowerCase l = toLowerCase ''Medium-High'' \<longrightarrow>
        getRiskLevelColor (Some l) = ''#FF9800'')
   \<and> (toLowerCase l = toLowerCase ''High'' \<longrightarrow> getRiskLevelColor (Some l) = ''#EA4335'')
   \<and> ((\<forall>k \<in> {''Low'', ''Medium'', ''Medium-High'', ''High''}. toLowerCase l \<noteq> toLowerCase k)
        \<longrightarrow> getRiskLevelColor (Some l) = ''#9AA0A6'')
   \<and> getRiskLevelColor None = ''#9AA0A6''
   \<and> getRiskLevelColor (Some l)
        \<in> {''#34A853'', ''#FBBC04'', ''#FF9800'', ''#EA4335'', ''#9AA0A6''}"
proof -
  have labels: "toLowerCase ''Low'' = ''low''" "toLowerCase ''Medium'' = ''medium''"
    "toLowerCase ''Medium-High'' = ''medium-high''" "toLowerCase ''High'' = ''high''"
    by (simp_all add: toLowerCase_def lower_char_def)
  show ?thesis
    unfolding labels by (simp add: labels getRiskLevelColor_def)
qed

theorem getRiskLevelColor_total_witness:
  "getRiskLevelColor (Some ''Low'') = ''#34A853''
   \<and> getRiskLevelColor (Some ''MEDIUM'') = ''#FBBC04''
   \<and> getRiskLevelColor (Some ''medium-HIGH'') = ''#FF9800''
   \<and> getRiskLevelColor (Some ''hIGH'') = ''#EA4335''
   \<and> getRiskLevelColor (Some ''Critical'') = ''#9AA0A6''
   \<and> getRiskLevelColor (Some []) = ''#9AA0A6''"
  using getRiskLevelColor_total [of "''Low''"] getRiskLevelColor_total [of "''MEDIUM''"]
    getRiskLevelColor_total [of "''medium-HIGH''"] getRiskLevelColor_total [of "''hIGH''"]
    getRiskLevelColor_total [of "''Critical''"] getRiskLevelColor_total [of "[]"]
  by (simp add: toLowerCase_def lower_char_def)

section \<open>Failure messages\<close>

text \<open>
  C6, as stated: a 401 answer whose body carries the \<^verbatim>\<open>detail\<close> "Invalid token" is
  reported as the authentication message; the detail is not surfaced.
\<close>

theorem detail_not_surfaced_counterexample:
  "response_detail unauthorized = Some ''Invalid token''
   \<and> errorMessage unauthorized = ''Authentication failed. Please check your credentials.''
   \<and> errorMessage unauthorized \<noteq> ''Invalid token''
   \<and> error (submit dev_env (Inl unauthorized) result_displayed)
        = Some ''Authentication failed. Please check your credentials.''"
  by (simp add: submit_def result_displayed_eq run_failure errorMessage_def unauthorized_def
      response_detail_def response_status_def)

text \<open>
  C6, amended: the message of a failed submission is chosen by a cascade. A refused
  connection gives the connection message; otherwise status 401 gives the
  authentication message; otherwise status 413 gives the file-size message; otherwise a
  non-empty \<^verbatim>\<open>detail\<close> of the response body is shown verbatim; otherwise the non-empty
  \<^verbatim>\<open>message\<close> of the error itself is shown; otherwise the fixed text "Evaluation failed.
  Please try again.". That message becomes the error state.
\<close>

theorem errorMessage_cascade:
  "(code err = Some ''ECONNREFUSED'' \<longrightarrow>
      errorMessage err = ''Cannot connect to the server. Please check if the backend is running.'')
   \<and> (code err \<noteq> Some ''ECONNREFUSED'' \<and> response_status err = Some 401 \<longrightarrow>
      errorMessage err = ''Authentication failed. Please check your credentials.'')
   \<and> (code err \<noteq> Some ''ECONNREFUSED'' \<and> response_status err = Some 413 \<longrightarrow>
      errorMessage err = ''File too large. Please upload a file smaller than 10MB.'')
   \<and> (code err \<noteq> Some ''ECONNREFUSED'' \<and> response_status err \<noteq> Some 401
        \<and> response_status err \<noteq> Some 413 \<and> response_detail err = Some d \<and> d \<noteq> [] \<longrightarrow>
      errorMessage err = d)
   \<and> (code err \<noteq> Some ''ECONNREFUSED'' \<and> response_status err \<noteq> Some 401
        \<and> response_status err \<noteq> Some 413 \<and> \<not> truthy (response_detail err)
        \<and> message err = Some m \<and> m \<noteq> [] \<longrightarrow>
      errorMessage err = m)
   \<and> (code err \<noteq> Some ''ECONNREFUSED'' \<and> response_status err \<noteq> Some 401
        \<and> response_status err \<noteq> Some 413 \<and> \<not> truthy (response_detail err)
        \<and> \<not> truthy (message err) \<longrightarrow>
      errorMessage err = ''Evaluation failed. Please try again.'')
   \<and> (file s \<noteq> None \<longrightarrow> error (submit e (Inl err) s) = Some (errorMessage err))"
  by (auto simp: errorMessage_def truthy_def submit_def run_failure)

theorem errorMessage_cascade_witness:
  "errorMessage refused = ''Cannot connect to the server. Please check if the backend is running.''
   \<and> errorMessage unauthorized = ''Authentication failed. Please check your credentials.''
   \<and> errorMessage \<lparr>code = None, response = Some \<lparr>status = 413, detail = None\<rparr>, message = None\<rparr>
       = ''File too large. Please upload a file smaller than 10MB.''
   \<and> errorMessage \<lparr>code = None, response = Some \<lparr>status = 422, detail = Some ''No file''\<rparr>,
        message = Some ''Request failed with status code 422''\<rparr> = ''No file''
   \<and> errorMessage timed_out = ''timeout of 120000ms exceeded''
   \<and> errorMessage \<lparr>code = None, response = None, message = None\<rparr>
       = ''Evaluation failed. Please try again.''
   \<and> error (submit dev_env (Inl timed_out) result_displayed) = Some ''timeout of 120000ms exceeded''"
  using errorMessage_cascade [of refused _ _ result_displayed dev_env]
    errorMessage_cascade [of unauthorized _ _ result_displayed dev_env]
    errorMessage_cascade [of "\<lparr>code = None, response = Some \<lparr>status = 413, detail = None\<rparr>, message = None\<rparr>"
      _ _ result_displayed dev_env]
    errorMessage_cascade [of "\<lparr>code = None, response = Some \<lparr>status = 422, detail = Some ''No file''\<rparr>,
        message = Some ''Request failed with status code 422''\<rparr>" "''No file''" _ result_displayed dev_env]
    errorMessage_cascade [of timed_out _ "''timeout of 120000ms exceeded''" result_displayed dev_env]
    errorMessage_cascade [of "\<lparr>code = None, response = None, message = None\<rparr>" _ _ result_displayed dev_env]
  by (simp add: refused_def unauthorized_def timed_out_def response_status_def response_detail_def
      truthy_def result_displayed_eq)

section \<open>Absent numeric fields\<close>

text \<open>
  C7. Every absent numeric field is to be rendered as a placeholder such as \<^verbatim>\<open>N/A\<close>,
  never as zero. In the metrics grid three values have the fallback
  (\<open>metrics_with_fallback\<close>): \<^verbatim>\<open>arr_percentile || 'N/A'\<close> (line 531),
  \<^verbatim>\<open>formatCurrency\<close> (line 556) and \<^verbatim>\<open>team_efficiency?.toFixed(2) || 'N/A'\<close> (line 566).
  The two others miss it: line 548 renders \<^verbatim>\<open>overall_risk_score?.toFixed(1)\<close> and line 558
  renders \<^verbatim>\<open>team_size\<close> as they are. For a response in which all five are absent the
  three cards show \<^verbatim>\<open>N/A\<close>, while the risk subtitle is "Score: " followed by nothing and
  the revenue subtitle is "Team: " and " members" with nothing between them.
\<close>

theorem absent_score_and_team_size_render_nothing:
  "arr_crore (extracted no_numbers) = None
   \<and> arr_percentile (comparison no_numbers) = None
   \<and> team_efficiency (comparison no_numbers) = None
   \<and> overall_risk_score (risk no_numbers) = None
   \<and> team_size (extracted no_numbers) = None
   \<and> revenue_value (\<lambda>d v. ''1.0'') no_numbers = [Str ''N/A'']
   \<and> performance_value no_numbers = [Str ''N/A'', Str ''%'']
   \<and> efficiency_value (\<lambda>d v. ''1.0'') no_numbers = [Str ''N/A'']
   \<and> risk_subtitle (\<lambda>d v. ''1.0'') no_numbers = [Str ''Score: '', Nothing]
   \<and> revenue_subtitle no_numbers = [Str ''Team: '', Nothing, Str '' members'']"
  by (simp add: no_numbers_def revenue_value_def formatCurrency_def performance_value_def
      efficiency_value_def truthy_def risk_subtitle_def revenue_subtitle_def opt_str_def
      opt_num_def)

section \<open>The request of a submission\<close>

text \<open>
  C8, as stated: the request that \<^verbatim>\<open>handleUpload\<close> of \<^verbatim>\<open>App\<close> issues has the one header
  \<^verbatim>\<open>Content-Type\<close> and no bearer credential.
\<close>

theorem app_request_without_credential_counterexample:
  "requests (handleUpload (Some deck_pdf) (Inr ())) = [app_upload_request deck_pdf]
   \<and> map fst (headers (app_upload_request deck_pdf)) = [''Content-Type'']
   \<and> map_of (headers (app_upload_request deck_pdf)) ''Authorization'' = None"
  by (simp add: requests_handleUpload) (simp add: app_upload_request_def)

text \<open>
  C8, amended: every submit with a selected file (the button is disabled without one)
  issues exactly one request, carrying the file as the single multipart field \<^verbatim>\<open>file\<close>
  with a timeout of 120 seconds. \<^verbatim>\<open>StartupEvaluator\<close> sends it with the bearer credential,
  \<^verbatim>\<open>App\<close> with no credential. In both components a rejected request, and so one that has
  timed out, is a failure: a message becomes the error, loading ends, and the evaluation
  and the file are unchanged.
\<close>

theorem submit_issues_one_request:
  "(\<not> upload_btn_disabled s \<longrightarrow>
      requests (handleFileUpload e (file s) outcome) = [upload_request e (the (file s))])
   \<and> requests (handleFileUpload e (Some f) outcome) = [upload_request e f]
   \<and> form_fields (upload_request e f) = [(''file'', f)]
   \<and> map_of (headers (upload_request e f)) ''Authorization'' = Some ''Bearer demo-token-2025''
   \<and> timeout (upload_request e f) = 120 * 1000
   \<and> requests (handleUpload (Some f) app_outcome) = [app_upload_request f]
   \<and> form_fields (app_upload_request f) = [(''file'', f)]
   \<and> map_of (headers (app_upload_request f)) ''Authorization'' = None
   \<and> timeout (app_upload_request f) = 120 * 1000
   \<and> (file s \<noteq> None \<longrightarrow>
        error (submit e (Inl timed_out) s) = Some ''timeout of 120000ms exceeded''
        \<and> evaluation (submit e (Inl timed_out) s) = evaluation s
        \<and> \<not> loading (submit e (Inl timed_out) s))
   \<and> (file s \<noteq> None \<longrightarrow>
        submit e (Inl err) s
          = s\<lparr>loading := False, error := Some (errorMessage err), processingStep := 0\<rparr>)
   \<and> (\<not> app_upload_btn_disabled a \<longrightarrow>
        requests (handleUpload (app_file a) app_outcome)
          = [app_upload_request (the (app_file a))])
   \<and> (app_file a \<noteq> None \<longrightarrow>
        app_submit (Inl err) a
          = a\<lparr>app_loading := False,
               app_error := Some (if truthy (response_detail err) then the (response_detail err)
                                  else ''Failed to process PDF. Please try again.'')\<rparr>)
   \<and> (app_file a \<noteq> None \<longrightarrow>
        app_error (app_submit (Inl timed_out) a)
          = Some ''Failed to process PDF. Please try again.''
        \<and> app_evaluation (app_submit (Inl timed_out) a) = app_evaluation a
        \<and> app_file (app_submit (Inl timed_out) a) = app_file a
        \<and> \<not> app_loading (app_submit (Inl timed_out) a))"
proof -
  have enabled: "\<not> upload_btn_disabled s \<Longrightarrow>
      requests (handleFileUpload e (file s) outcome) = [upload_request e (the (file s))]"
    by (cases "file s") (simp_all add: upload_btn_disabled_def requests_upload)
  have app_enabled: "\<not> app_upload_btn_disabled a \<Longrightarrow>
      requests (handleUpload (app_file a) app_outcome) = [app_upload_request (the (app_file a))]"
    by (cases "app_file a") (simp_all add: app_upload_btn_disabled_def requests_handleUpload)
  have failure: "file s \<noteq> None \<Longrightarrow> submit e (Inl x) s
      = s\<lparr>loading := False, error := Some (errorMessage x), processingStep := 0\<rparr>" for x
    by (cases "file s") (simp_all add: submit_def run_failure)
  have app_failure: "app_file a \<noteq> None \<Longrightarrow> app_submit (Inl x) a
      = a\<lparr>app_loading := False,
           app_error := Some (if truthy (response_detail x) then the (response_detail x)
                              else ''Failed to process PDF. Please try again.'')\<rparr>" for x
    by (cases "app_file a") (simp_all add: app_submit_def app_run_failure)
  have requests: "requests (handleFileUpload e (Some f) outcome) = [upload_request e f]"
    "requests (handleUpload (Some f) app_outcome) = [app_upload_request f]"
    by (simp_all add: requests_upload requests_handleUpload)
  have config: "form_fields (upload_request e f) = [(''file'', f)]"
    "map_of (headers (upload_request e f)) ''Authorization'' = Some ''Bearer demo-token-2025''"
    "timeout (upload_request e f) = 120 * 1000"
    "form_fields (app_upload_request f) = [(''file'', f)]"
    "map_of (headers (app_upload_request f)) ''Authorization'' = None"
    "timeout (app_upload_request f) = 120 * 1000"
    by (simp_all add: upload_request_def app_upload_request_def)
  show ?thesis
    using enabled app_enabled requests config
    by (simp add: failure app_failure errorMessage_timed_out response_detail_timed_out truthy_def)
qed

theorem submit_issues_one_request_witness:
  "\<not> upload_btn_disabled result_displayed
   \<and> the (file result_displayed) = deck_pdf
   \<and> requests (handleFileUpload dev_env (file result_displayed) (Inl timed_out))
       = [upload_request dev_env (the (file result_displayed))]
   \<and> error (submit dev_env (Inl timed_out) result_displayed) = Some ''timeout of 120000ms exceeded''
   \<and> evaluation (submit dev_env (Inl timed_out) result_displayed) = evaluation result_displayed
   \<and> \<not> app_upload_btn_disabled app_deck_selected
   \<and> the (app_file app_deck_selected) = deck_pdf
   \<and> requests (handleUpload (app_file app_deck_selected) (Inl timed_out :: axios_error + unit))
       = [app_upload_request (the (app_file app_deck_selected))]
   \<and> app_error (app_submit (Inl timed_out) app_deck_selected)
       = Some ''Failed to process PDF. Please try again.''
   \<and> \<not> app_loading (app_submit (Inl timed_out) app_deck_selected)"
proof -
  have enabled: "\<not> upload_btn_disabled result_displayed"
    by (simp add: result_displayed_eq upload_btn_disabled_def)
  have picked: "file result_displayed \<noteq> None" "the (file result_displayed) = deck_pdf"
    by (simp_all add: result_displayed_eq)
  have app_enabled: "\<not> app_upload_btn_disabled app_deck_selected"
    by (simp add: app_deck_selected_def app_upload_btn_disabled_def)
  have app_picked: "app_file app_deck_selected \<noteq> None"
    "the (app_file app_deck_selected) = deck_pdf"
    by (simp_all add: app_deck_selected_def)
  from enabled picked app_enabled app_picked
    submit_issues_one_request [where s = result_displayed and e = dev_env
      and outcome = "Inl timed_out" and f = deck_pdf and a = app_deck_selected
      and app_outcome = "Inl timed_out" and err = timed_out]
  show ?thesis by blast
qed

section \<open>Zero revenue\<close>

text \<open>
  C9. \<^verbatim>\<open>formatCurrency\<close> maps 0 to the same \<^verbatim>\<open>N/A\<close> as an absent value, so for every
  evaluation result the ARR shown (in the revenue card and on a sample card) is the same
  for \<^verbatim>\<open>arr_crore\<close> equal to 0 and for \<^verbatim>\<open>arr_crore\<close> absent; the sample Cashvisory (ARR 0)
  and the sample Dr. Doodley (no ARR) both show \<^verbatim>\<open>N/A\<close>.
\<close>

theorem formatCurrency_zero_as_absent:
  "formatCurrency toFixed (Some 0) = ''N/A''
   \<and> formatCurrency toFixed None = ''N/A''
   \<and> revenue_value toFixed (ev\<lparr>extracted := (extracted ev)\<lparr>arr_crore := Some 0\<rparr>\<rparr>)
       = revenue_value toFixed (ev\<lparr>extracted := (extracted ev)\<lparr>arr_crore := None\<rparr>\<rparr>)
   \<and> sample_details toFixed (ev\<lparr>extracted := (extracted ev)\<lparr>arr_crore := Some 0\<rparr>\<rparr>)
       = sample_details toFixed (ev\<lparr>extracted := (extracted ev)\<lparr>arr_crore := None\<rparr>\<rparr>)
   \<and> arr_crore (extracted (cashvisory now)) = Some 0
   \<and> revenue_value toFixed (cashvisory now) = [Str ''N/A'']
   \<and> arr_crore (extracted (drdoodley now)) = None
   \<and> revenue_value toFixed (drdoodley now) = [Str ''N/A'']"
  by (simp add: formatCurrency_def revenue_value_def sample_details_def cashvisory_def
      drdoodley_def)

theorem formatCurrency_zero_as_absent_witness:
  "revenue_value (\<lambda>d v. ''6.8'') (cashvisory []) = revenue_value (\<lambda>d v. ''6.8'') (drdoodley [])
   \<and> revenue_value (\<lambda>d v. ''6.8'') (we360ai []) = [Str (rupee @ ''6.8Cr'')]"
  using formatCurrency_zero_as_absent [of "\<lambda>d v. ''6.8''" "we360ai []" "[]"]
  by (simp add: revenue_value_def formatCurrency_def we360ai_def)

section \<open>A failed submission\<close>

text \<open>
  C10. A failed submission leaves the stored evaluation unchanged: only the error, the
  loading flag and the processing step are modified, so a result that was displayed
  stays displayed, now together with the error section.
\<close>

theorem failed_submit_keeps_evaluation:
  "evaluation (submit e (Inl err) s) = evaluation s
   \<and> file (submit e (Inl err) s) = file s
   \<and> showSampleData (submit e (Inl err) s) = showSampleData s
   \<and> dragActive (submit e (Inl err) s) = dragActive s
   \<and> results_section_shown (submit e (Inl err) s) = results_section_shown s
   \<and> error_section_shown (submit e (Inl err) s)
   \<and> (file s \<noteq> None \<longrightarrow>
        submit e (Inl err) s
          = s\<lparr>loading := False, error := Some (errorMessage err), processingStep := 0\<rparr>)"
  by (cases "file s")
     (simp_all add: submit_def run_no_file run_failure results_section_shown_def
        error_section_shown_def truthy_def errorMessage_nonempty)

theorem failed_submit_keeps_evaluation_witness:
  "file result_displayed \<noteq> None
   \<and> evaluation result_displayed = Some (we360ai [])
   \<and> evaluation (submit dev_env (Inl refused) result_displayed) = evaluation result_displayed
   \<and> error_section_shown (submit dev_env (Inl refused) result_displayed)
   \<and> submit dev_env (Inl refused) result_displayed
       = result_displayed\<lparr>loading := False, error := Some (errorMessage refused),
           processingStep := 0\<rparr>"
proof -
  have shown: "file result_displayed \<noteq> None" "evaluation result_displayed = Some (we360ai [])"
    by (simp_all add: result_displayed_eq)
  from shown failed_submit_keeps_evaluation [of dev_env refused result_displayed]
  show ?thesis by blast
qed

end
